theory Spec2Isabelle
  imports Complex_Main "HOL-Library.AList"
begin

section \<open>Python values shared by both notebooks\<close>

text \<open>
  The two notebooks (the inhomogeneous pebble game and the basic sampling notebook) are
  plain Python: lists, dicts, integers and floats, and the global generator of the
  \<^verbatim>\<open>random\<close> module. Lists are HOL lists, a dict is an association list in insertion
  order, Python integers are \<^typ>\<open>int\<close>, and weights are exact reals. Every exception
  the code can raise is a value of \<open>error\<close>, and a function that can raise returns
  \<open>error + 'a\<close>.
\<close>

datatype error = IndexError | KeyError | ZeroDivisionError | ValueError

definition bindE :: "error + 'a \<Rightarrow> ('a \<Rightarrow> error + 'b) \<Rightarrow> error + 'b" where
  "bindE m f = (case m of Inl e \<Rightarrow> Inl e | Inr x \<Rightarrow> f x)"

text \<open>\<^verbatim>\<open>xs[i]\<close>: a negative index counts from the end, anything out of range raises.\<close>

definition getitem :: "'a list \<Rightarrow> int \<Rightarrow> error + 'a" where
  "getitem xs i =
     (if 0 \<le> i \<and> i < int (length xs) then Inr (xs ! nat i)
      else if i < 0 \<and> - int (length xs) \<le> i then Inr (xs ! nat (int (length xs) + i))
      else Inl IndexError)"

text \<open>\<^verbatim>\<open>d[k]\<close> on a dict raises KeyError for a missing key.\<close>

definition dict_get :: "('k \<times> 'v) list \<Rightarrow> 'k \<Rightarrow> error + 'v" where
  "dict_get d k = (case map_of d k of None \<Rightarrow> Inl KeyError | Some v \<Rightarrow> Inr v)"

text \<open>\<^verbatim>\<open>a / b\<close> raises ZeroDivisionError for a zero divisor.\<close>

definition truediv :: "real \<Rightarrow> real \<Rightarrow> error + real" where
  "truediv a b = (if b = 0 then Inl ZeroDivisionError else Inr (a / b))"

text \<open>
  The generator is a parameter: a run receives, for iteration \<open>i\<close>, the raw integer
  \<open>ri i\<close> behind \<^verbatim>\<open>random.randint\<close> and the unit variate \<open>ru i\<close> in \<open>[0, 1)\<close>
  behind \<^verbatim>\<open>random.uniform\<close>. \<^verbatim>\<open>randint(a, b)\<close> reduces the raw integer into
  \<open>[a, b]\<close> and raises ValueError on an empty range; \<^verbatim>\<open>uniform(a, b)\<close> is
  \<^verbatim>\<open>a + (b - a) * random()\<close>.
\<close>

definition randint :: "int \<Rightarrow> int \<Rightarrow> nat \<Rightarrow> error + int" where
  "randint a b r = (if b < a then Inl ValueError else Inr (a + int (r mod nat (b - a + 1))))"

definition uniform :: "real \<Rightarrow> real \<Rightarrow> real \<Rightarrow> real" where
  "uniform a b u = a + (b - a) * u"

definition unit_draws :: "(nat \<Rightarrow> real) \<Rightarrow> bool" where
  "unit_draws ru = (\<forall>i. 0 \<le> ru i \<and> ru i < 1)"

section \<open>The pebble game notebook: the grid\<close>

text \<open>
  \<^verbatim>\<open>
  def create_system(n):
      letters = np.array(list(string.ascii_uppercase))
      system = letters[:n * n].reshape(n, n)
      return system
  \<close>
  A label is a string. The slice \<^verbatim>\<open>letters[:n * n]\<close> keeps at most 26 letters
  (the stop \<open>n * n\<close> is never negative). \<^verbatim>\<open>reshape(n, n)\<close> raises ValueError when a
  dimension is negative or when \<open>n * n\<close> is not the number of elements, and otherwise
  cuts the array into \<open>n\<close> rows of \<open>n\<close> elements.
\<close>

type_synonym label = string

definition ascii_uppercase :: string where
  "ascii_uppercase = ''ABCDEFGHIJKLMNOPQRSTUVWXYZ''"

text \<open>\<^verbatim>\<open>list(s)\<close> on a string: its characters, each a string of length one.\<close>

definition list_of_str :: "string \<Rightarrow> label list" where
  "list_of_str s = map (\<lambda>c. [c]) s"

definition reshape :: "'a list \<Rightarrow> int \<Rightarrow> error + 'a list list" where
  "reshape xs n =
     (if n < 0 \<or> n * n \<noteq> int (length xs) then Inl ValueError
      else Inr (map (\<lambda>i. take (nat n) (drop (i * nat n) xs)) [0..<nat n]))"

definition create_system :: "int \<Rightarrow> error + label list list" where
  "create_system n =
     (let letters = list_of_str ascii_uppercase;
          system = reshape (take (nat (n * n)) letters) n
      in system)"

text \<open>\<^verbatim>\<open>system[i, j]\<close> on the two-dimensional array.\<close>

definition cell :: "'a list list \<Rightarrow> int \<Rightarrow> int \<Rightarrow> error + 'a" where
  "cell system i j = bindE (getitem system i) (\<lambda>row. getitem row j)"

text \<open>A \<^verbatim>\<open>for\<close> loop over a list, threading the loop's variables; it stops at the first
  exception.\<close>

fun for_each :: "('a \<Rightarrow> 's \<Rightarrow> error + 's) \<Rightarrow> 'a list \<Rightarrow> 's \<Rightarrow> error + 's" where
  "for_each f [] s = Inr s"
| "for_each f (x # xs) s = bindE (f x s) (for_each f xs)"

text \<open>
  \<^verbatim>\<open>
  def get_neighborhood_table(system):
      n = system.shape[0]
      neighborhood_table = {}
      for i in range(n):
          for j in range(n):
              neighbors = []
              if i > 0:  # up
                  neighbors.append(str(system[i-1, j]))
              else:
                  neighbors.append(str(system[i, j]))
              if j < n-1:  # right
                  neighbors.append(str(system[i, j+1]))
              else:
                  neighbors.append(str(system[i, j]))
              if i < n-1:  # down
                  neighbors.append(str(system[i+1, j]))
              else:
                  neighbors.append(str(system[i, j]))
              if j > 0:  # left
                  neighbors.append(str(system[i, j-1]))
              else:
                  neighbors.append(str(system[i, j]))
              neighborhood_table[str(system[i, j])] = neighbors
      return neighborhood_table
  \<close>
  \<open>neighbors\<close> is the list built by the body of the inner loop, \<open>table_cell\<close> that body
  with its store into the dict.
\<close>

definition neighbors :: "label list list \<Rightarrow> int \<Rightarrow> int \<Rightarrow> int \<Rightarrow> error + label list" where
  "neighbors system n i j =
     bindE (if i > 0 then cell system (i - 1) j else cell system i j) (\<lambda>up.
     bindE (if j < n - 1 then cell system i (j + 1) else cell system i j) (\<lambda>right.
     bindE (if i < n - 1 then cell system (i + 1) j else cell system i j) (\<lambda>down.
     bindE (if j > 0 then cell system i (j - 1) else cell system i j) (\<lambda>left.
     Inr [up, right, down, left]))))"

definition table_cell ::
  "label list list \<Rightarrow> int \<Rightarrow> int \<Rightarrow> int \<Rightarrow> (label \<times> label list) list
     \<Rightarrow> error + (label \<times> label list) list" where
  "table_cell system n i j neighborhood_table =
     bindE (neighbors system n i j) (\<lambda>nbs.
     bindE (cell system i j) (\<lambda>k.
     Inr (AList.update k nbs neighborhood_table)))"

definition get_neighborhood_table :: "label list list \<Rightarrow> error + (label \<times> label list) list" where
  "get_neighborhood_table system =
     (let n = int (length system)
      in for_each (\<lambda>i. for_each (\<lambda>j. table_cell system n i j) [0..n - 1]) [0..n - 1] [])"

section \<open>The Metropolis walkers\<close>

text \<open>
  The state of a walk is the current position, its cached weight and the scores. The
  statement \<^verbatim>\<open>scores[k] += 1\<close> reads the key first, so it raises KeyError when the
  key is missing.
\<close>

record 'a walker =
  current_pos :: 'a
  current_pos_prob :: real
  scores :: "('a \<times> int) list"

definition incr_score :: "'a \<Rightarrow> ('a \<times> int) list \<Rightarrow> error + ('a \<times> int) list" where
  "incr_score k sc =
     (case map_of sc k of None \<Rightarrow> Inl KeyError | Some v \<Rightarrow> Inr (AList.update k (v + 1) sc))"

text \<open>\<^verbatim>\<open>scores = dict(); for i in activities: scores[i] = 0\<close>\<close>

definition init_scores :: "'a list \<Rightarrow> ('a \<times> int) list" where
  "init_scores activities = fold (\<lambda>i sc. AList.update i 0 sc) activities []"

text \<open>The accept or reject statement shared by both walkers, then the score update.\<close>

definition accept_or_reject ::
  "real \<Rightarrow> real \<Rightarrow> 'a \<Rightarrow> real \<Rightarrow> 'a walker \<Rightarrow> error + 'a walker" where
  "accept_or_reject u gamma new_pos new_pos_prob st =
     (let st' = (if uniform 0 1 u \<le> gamma
                then st\<lparr>current_pos := new_pos, current_pos_prob := new_pos_prob\<rparr>
                else st)
      in bindE (incr_score (current_pos st') (scores st')) (\<lambda>sc. Inr (st'\<lparr>scores := sc\<rparr>)))"

subsection \<open>The lattice walker of the pebble game notebook\<close>

text \<open>
  \<^verbatim>\<open>
  def metropolis_pebble(num_iter, neighborhood_table, sta_prob):
      scores={'A': 0, 'B': 0, ..., 'P': 0}
      current_pos = 'A'  # inital pos.
      current_pos_prob = sta_prob[current_pos]
      for i in range(num_iter):
          new_direct = random.randint(0, 3)
          new_pos = neighborhood_table[current_pos][new_direct]
          new_pos_prob = sta_prob[new_pos]
          gamma = min(1, new_pos_prob/current_pos_prob)
          if (random.uniform(0, 1) <= gamma):
              current_pos = new_pos
              current_pos_prob = new_pos_prob
          scores[current_pos] += 1
      return scores
  \<close>
  \<open>lattice_iter \<dots> k\<close> is the state after \<open>k\<close> iterations of the loop.
\<close>

definition lattice_scores :: "(label \<times> int) list" where
  "lattice_scores =
     [(''A'', 0), (''B'', 0), (''C'', 0), (''D'', 0), (''E'', 0), (''F'', 0), (''G'', 0),
      (''H'', 0), (''I'', 0), (''J'', 0), (''K'', 0), (''L'', 0), (''M'', 0), (''N'', 0),
      (''O'', 0), (''P'', 0)]"

definition lattice_step ::
  "(label \<times> label list) list \<Rightarrow> (label \<times> real) list \<Rightarrow> nat \<Rightarrow> real
     \<Rightarrow> label walker \<Rightarrow> error + label walker" where
  "lattice_step neighborhood_table sta_prob r u st =
     bindE (randint 0 3 r) (\<lambda>new_direct.
     bindE (dict_get neighborhood_table (current_pos st)) (\<lambda>nbs.
     bindE (getitem nbs new_direct) (\<lambda>new_pos.
     bindE (dict_get sta_prob new_pos) (\<lambda>new_pos_prob.
     bindE (truediv new_pos_prob (current_pos_prob st)) (\<lambda>q.
     accept_or_reject u (min 1 q) new_pos new_pos_prob st)))))"

definition lattice_init :: "(label \<times> real) list \<Rightarrow> error + label walker" where
  "lattice_init sta_prob =
     bindE (dict_get sta_prob ''A'') (\<lambda>w.
     Inr \<lparr>current_pos = ''A'', current_pos_prob = w, scores = lattice_scores\<rparr>)"

primrec lattice_iter ::
  "(label \<times> label list) list \<Rightarrow> (label \<times> real) list \<Rightarrow> (nat \<Rightarrow> nat) \<Rightarrow> (nat \<Rightarrow> real)
     \<Rightarrow> nat \<Rightarrow> error + label walker" where
  "lattice_iter neighborhood_table sta_prob ri ru 0 = lattice_init sta_prob"
| "lattice_iter neighborhood_table sta_prob ri ru (Suc k) =
     bindE (lattice_iter neighborhood_table sta_prob ri ru k)
       (lattice_step neighborhood_table sta_prob (ri k) (ru k))"


subsection \<open>The generic walker of the basic sampling notebook\<close>

text \<open>
  \<^verbatim>\<open>
  def metropolis_pebble(num_iter, activities, probabilities):
      scores = dict()
      for i in activities:
          scores[i] = 0
      current_pos = activities[0]
      current_pos_prob = probabilities[0]
      for i in range(num_iter):
          new_idx = random.randint(0, len(activities)-1)
          new_pos = activities[new_idx]
          new_pos_prob = probabilities[new_idx]
          gamma = min(1, new_pos_prob/current_pos_prob)
          if (random.uniform(0, 1) <= gamma):
              current_pos = new_pos
              current_pos_prob = new_pos_prob
          scores[current_pos] += 1
      return scores
  \<close>
\<close>

definition metropolis_step ::
  "'a list \<Rightarrow> real list \<Rightarrow> nat \<Rightarrow> real \<Rightarrow> 'a walker \<Rightarrow> error + 'a walker" where
  "metropolis_step activities probabilities r u st =
     bindE (randint 0 (int (length activities) - 1) r) (\<lambda>new_idx.
     bindE (getitem activities new_idx) (\<lambda>new_pos.
     bindE (getitem probabilities new_idx) (\<lambda>new_pos_prob.
     bindE (truediv new_pos_prob (current_pos_prob st)) (\<lambda>q.
     accept_or_reject u (min 1 q) new_pos new_pos_prob st))))"

definition metropolis_init :: "'a list \<Rightarrow> real list \<Rightarrow> error + 'a walker" where
  "metropolis_init activities probabilities =
     bindE (getitem activities 0) (\<lambda>p.
     bindE (getitem probabilities 0) (\<lambda>w.
     Inr \<lparr>current_pos = p, current_pos_prob = w, scores = init_scores activities\<rparr>))"

primrec metropolis_iter ::
  "'a list \<Rightarrow> real list \<Rightarrow> (nat \<Rightarrow> nat) \<Rightarrow> (nat \<Rightarrow> real) \<Rightarrow> nat \<Rightarrow> error + 'a walker" where
  "metropolis_iter activities probabilities ri ru 0 = metropolis_init activities probabilities"
| "metropolis_iter activities probabilities ri ru (Suc k) =
     bindE (metropolis_iter activities probabilities ri ru k)
       (metropolis_step activities probabilities (ri k) (ru k))"


section \<open>The rejection sampler\<close>

text \<open>
  \<^verbatim>\<open>
  def reject_finite(num_iter, activities, probabilities):
      scores = dict()
      for i in activities:
          scores[i] = 0
      max_prob = max(probabilities)
      accept_count = 0
      for i in range(num_iter):
          k = random.randint(0, len(activities)-1)
          gamma = random.uniform(0, max_prob)
          if (gamma <= probabilities[k]):
              scores[activities[k]] += 1
              accept_count += 1
      return scores, accept_count
  \<close>
  \<^verbatim>\<open>max\<close> of an empty list raises ValueError.
\<close>

definition max_list :: "real list \<Rightarrow> error + real" where
  "max_list xs = (case xs of [] \<Rightarrow> Inl ValueError | x # ys \<Rightarrow> Inr (fold max ys x))"

definition reject_step ::
  "'a list \<Rightarrow> real list \<Rightarrow> real \<Rightarrow> nat \<Rightarrow> real \<Rightarrow> ('a \<times> int) list \<times> int
     \<Rightarrow> error + ('a \<times> int) list \<times> int" where
  "reject_step activities probabilities max_prob r u st =
     bindE (randint 0 (int (length activities) - 1) r) (\<lambda>k.
     let gamma = uniform 0 max_prob u in
     bindE (getitem probabilities k) (\<lambda>p.
     if gamma \<le> p
     then bindE (getitem activities k) (\<lambda>a.
          bindE (incr_score a (fst st)) (\<lambda>sc.
          Inr (sc, snd st + 1)))
     else Inr st))"

primrec reject_iter ::
  "'a list \<Rightarrow> real list \<Rightarrow> real \<Rightarrow> (nat \<Rightarrow> nat) \<Rightarrow> (nat \<Rightarrow> real) \<Rightarrow> nat
     \<Rightarrow> error + ('a \<times> int) list \<times> int" where
  "reject_iter activities probabilities max_prob ri ru 0 = Inr (init_scores activities, 0)"
| "reject_iter activities probabilities max_prob ri ru (Suc k) =
     bindE (reject_iter activities probabilities max_prob ri ru k)
       (reject_step activities probabilities max_prob (ri k) (ru k))"

definition reject_finite ::
  "int \<Rightarrow> 'a list \<Rightarrow> real list \<Rightarrow> (nat \<Rightarrow> nat) \<Rightarrow> (nat \<Rightarrow> real)
     \<Rightarrow> error + ('a \<times> int) list \<times> int" where
  "reject_finite num_iter activities probabilities ri ru =
     bindE (max_list probabilities) (\<lambda>max_prob.
     reject_iter activities probabilities max_prob ri ru (nat num_iter))"

section \<open>The tower sampler and its continuum limit\<close>






text \<open>
  \<^verbatim>\<open>
  def cont_tower_sample(num_iter):
      results = []
      for i in range(num_iter):
          upsilon = random.uniform(0, 1)
          x = np.arccos(1-2*upsilon)
          results.append(x)
      return np.array(results)
  \<close>
\<close>

definition cont_tower_sample :: "int \<Rightarrow> (nat \<Rightarrow> real) \<Rightarrow> real list" where
  "cont_tower_sample num_iter ru =
     map (\<lambda>i. let upsilon = uniform 0 1 (ru i) in arccos (1 - 2 * upsilon)) [0..<nat num_iter]"

section \<open>Notions used in the statements\<close>

text \<open>A grid of \<open>n\<close> rows of \<open>n\<close> cells, and the sum of the counts of a score table.\<close>

definition square_grid :: "nat \<Rightarrow> 'a list list \<Rightarrow> bool" where
  "square_grid n g = (length g = n \<and> list_all (\<lambda>row. length row = n) g)"

definition total :: "('k \<times> int) list \<Rightarrow> int" where
  "total sc = sum_list (map snd sc)"

text \<open>Two streams of unit variates for the concrete runs below.\<close>

definition zero_draws :: "nat \<Rightarrow> real" where
  "zero_draws i = 0"

definition half_draws :: "nat \<Rightarrow> real" where
  "half_draws i = 1 / 2"

text \<open>Concrete inputs for the runs below: integer draws \<open>0, 1, 2, \<dots>\<close> and three activities.\<close>

definition count_draws :: "nat \<Rightarrow> nat" where
  "count_draws i = i"

definition activities3 :: "string list" where
  "activities3 = [''trip'', ''novel'', ''cricket'']"



text \<open>The neighbour table and the stationary weights of the pebble game notebook.\<close>

definition pebble_table :: "(label \<times> label list) list" where
  "pebble_table =
     [(''A'', [''A'', ''B'', ''E'', ''A'']), (''B'', [''B'', ''C'', ''F'', ''A'']),
      (''C'', [''C'', ''D'', ''G'', ''B'']), (''D'', [''D'', ''D'', ''H'', ''C'']),
      (''E'', [''A'', ''F'', ''I'', ''E'']), (''F'', [''B'', ''G'', ''J'', ''E'']),
      (''G'', [''C'', ''H'', ''K'', ''F'']), (''H'', [''D'', ''H'', ''L'', ''G'']),
      (''I'', [''E'', ''J'', ''M'', ''I'']), (''J'', [''F'', ''K'', ''N'', ''I'']),
      (''K'', [''G'', ''L'', ''O'', ''J'']), (''L'', [''H'', ''L'', ''P'', ''K'']),
      (''M'', [''I'', ''N'', ''M'', ''M'']), (''N'', [''J'', ''O'', ''N'', ''M'']),
      (''O'', [''K'', ''P'', ''O'', ''N'']), (''P'', [''L'', ''P'', ''P'', ''O''])]"

definition pebble_sta_prob :: "(label \<times> real) list" where
  "pebble_sta_prob =
     [(''A'', 2), (''B'', 2), (''C'', 2), (''D'', 2), (''E'', 2), (''F'', 1), (''G'', 1),
      (''H'', 2), (''I'', 2), (''J'', 1), (''K'', 1), (''L'', 2), (''M'', 2), (''N'', 2),
      (''O'', 2), (''P'', 2)]"



text \<open>
  The neighbours of the cell in row \<open>i\<close> and column \<open>j\<close> of an \<open>n \<times> n\<close> grid as the
  specification words them: up, right, down, left, and the cell's own label for a
  direction that leaves the grid. The \<open>4 \<times> 4\<close> grid of the notebook.
\<close>

definition adjacent_labels :: "label list list \<Rightarrow> nat \<Rightarrow> nat \<Rightarrow> nat \<Rightarrow> label list" where
  "adjacent_labels system n i j =
     [if 0 < i then system ! (i - 1) ! j else system ! i ! j,
      if Suc j < n then system ! i ! Suc j else system ! i ! j,
      if Suc i < n then system ! Suc i ! j else system ! i ! j,
      if 0 < j then system ! i ! (j - 1) else system ! i ! j]"

definition grid4 :: "label list list" where
  "grid4 = [[''A'', ''B'', ''C'', ''D''], [''E'', ''F'', ''G'', ''H''],
            [''I'', ''J'', ''K'', ''L''], [''M'', ''N'', ''O'', ''P'']]"

section \<open>Basic facts\<close>

lemma bindE_Inr [simp]: "bindE (Inr x) f = f x"
  by (simp add: bindE_def)

lemma bindE_Inl [simp]: "bindE (Inl e) f = Inl e"
  by (simp add: bindE_def)

lemma bindE_eq_Inr: "bindE m f = Inr y \<longleftrightarrow> (\<exists>x. m = Inr x \<and> f x = Inr y)"
  by (cases m) simp_all

section \<open>The grid builder\<close>

lemma length_ascii_uppercase: "length (list_of_str ascii_uppercase) = 26"
  by (simp add: ascii_uppercase_def list_of_str_def)

lemma create_system_small:
  assumes "n \<in> {0, 1, 2, 3, 4, 5}"
  shows "\<exists>g. create_system n = Inr g \<and> square_grid (nat n) g \<and> distinct (concat g)
           \<and> concat g = take (nat (n * n)) (list_of_str ascii_uppercase)"
  using assms
  by (elim insertE emptyE)
    (simp_all add: create_system_def reshape_def ascii_uppercase_def list_of_str_def
       square_grid_def upt_conv_Cons)

lemma create_system_large:
  assumes "6 \<le> n"
  shows "create_system n = Inl ValueError"
proof -
  have "6 * 6 \<le> n * n"
    using assms by (intro mult_mono) auto
  then have "int (length (take (nat (n * n)) (list_of_str ascii_uppercase))) \<noteq> n * n"
    by (simp add: length_ascii_uppercase)
  then show ?thesis
    by (simp add: create_system_def reshape_def)
qed

text \<open>
  C10. For a grid size \<open>n \<ge> 0\<close>, \<open>create_system n\<close> returns a grid exactly when
  \<open>n * n \<le> 26\<close>, that is when \<open>n \<le> 5\<close>; the grid then has \<open>n\<close> rows of \<open>n\<close> cells,
  its labels are distinct and they are the first \<open>n * n\<close> uppercase letters in order.
  For \<open>n \<ge> 6\<close> the reshape of the 26 letters raises ValueError.
\<close>

theorem create_system_grid:
  assumes "0 \<le> n"
  shows "((\<exists>g. create_system n = Inr g \<and> square_grid (nat n) g \<and> distinct (concat g)
              \<and> concat g = take (nat (n * n)) (list_of_str ascii_uppercase)) \<longleftrightarrow> n * n \<le> 26)
         \<and> (n * n \<le> 26 \<longleftrightarrow> n \<le> 5)
         \<and> (6 \<le> n \<longrightarrow> create_system n = Inl ValueError)"
proof (cases "n \<le> 5")
  case True
  with assms have mem: "n \<in> {0, 1, 2, 3, 4, 5}"
    by auto
  have "n * n \<le> 5 * 5"
    using assms True by (intro mult_mono) auto
  with create_system_small [OF mem] True show ?thesis
    by auto
next
  case False
  then have big: "6 \<le> n"
    by simp
  then have "6 * 6 \<le> n * n"
    by (intro mult_mono) auto
  with create_system_large [OF big] False show ?thesis
    by auto
qed

theorem create_system_grid_witness:
  "(0::int) \<le> 4
   \<and> ((\<exists>g. create_system 4 = Inr g \<and> square_grid (nat 4) g \<and> distinct (concat g)
            \<and> concat g = take (nat (4 * 4)) (list_of_str ascii_uppercase)) \<longleftrightarrow> (4::int) * 4 \<le> 26)
   \<and> create_system 4 =
       Inr [[''A'', ''B'', ''C'', ''D''], [''E'', ''F'', ''G'', ''H''],
            [''I'', ''J'', ''K'', ''L''], [''M'', ''N'', ''O'', ''P'']]
   \<and> create_system 6 = Inl ValueError"
proof -
  have grid: "create_system 4 =
       Inr [[''A'', ''B'', ''C'', ''D''], [''E'', ''F'', ''G'', ''H''],
            [''I'', ''J'', ''K'', ''L''], [''M'', ''N'', ''O'', ''P'']]"
    by (simp add: create_system_def reshape_def ascii_uppercase_def list_of_str_def upt_conv_Cons)
  have "(0::int) \<le> 4" "(0::int) \<le> 6"
    by simp_all
  from create_system_grid [OF this(1)] create_system_grid [OF this(2)] grid show ?thesis
    by (simp add: ascii_uppercase_def list_of_str_def square_grid_def)
qed

section \<open>The continuum tower sampler\<close>

lemma cont_tower_sample_nth:
  "i < nat num_iter \<Longrightarrow> cont_tower_sample num_iter ru ! i = arccos (1 - 2 * ru i)"
  by (simp add: cont_tower_sample_def uniform_def)

text \<open>
  C6, as the code has it. With unit variates in \<open>[0, 1)\<close>, the sampler returns one
  sample per iteration, the \<open>i\<close>-th sample is \<open>arccos (1 - 2 * ru i)\<close>, and every sample
  lies in \<open>[0, pi)\<close>: the upper endpoint is never reached, the lower one is (see the
  run below).
\<close>

theorem cont_tower_sample_range:
  assumes "unit_draws ru"
  shows "length (cont_tower_sample num_iter ru) = nat num_iter
         \<and> (\<forall>i < nat num_iter.
              cont_tower_sample num_iter ru ! i = arccos (1 - 2 * ru i)
              \<and> 0 \<le> cont_tower_sample num_iter ru ! i
              \<and> cont_tower_sample num_iter ru ! i < pi)"
proof -
  have "0 \<le> arccos (1 - 2 * ru i) \<and> arccos (1 - 2 * ru i) < pi" for i
  proof -
    from assms have u: "0 \<le> ru i" "ru i < 1"
      by (simp_all add: unit_draws_def)
    then have "- 1 < 1 - 2 * ru i" "1 - 2 * ru i \<le> 1"
      by simp_all
    then show ?thesis
      using arccos_lbound [of "1 - 2 * ru i"] arccos_less_arccos [of "- 1" "1 - 2 * ru i"]
      by simp
  qed
  then show ?thesis
    by (simp add: cont_tower_sample_nth) (simp add: cont_tower_sample_def)
qed

theorem cont_tower_sample_range_witness:
  "unit_draws half_draws \<and> cont_tower_sample 2 half_draws = [pi / 2, pi / 2]
   \<and> length (cont_tower_sample 2 half_draws) = nat 2"
proof -
  have u: "unit_draws half_draws"
    by (simp add: unit_draws_def half_draws_def)
  have "[0..<nat 2] = [0, 1]"
    by (simp add: upt_conv_Cons)
  then have "cont_tower_sample 2 half_draws = [pi / 2, pi / 2]"
    by (simp add: cont_tower_sample_def uniform_def half_draws_def arccos_0)
  with u cont_tower_sample_range [OF u, of 2] show ?thesis
    by simp
qed

text \<open>
  The unit variate \<open>0\<close> is a value of \<^verbatim>\<open>random.uniform(0, 1)\<close>; its sample is
  \<open>arccos 1 = 0\<close>, the lower endpoint of the interval.
\<close>

theorem cont_tower_sample_endpoint:
  "unit_draws zero_draws \<and> cont_tower_sample 1 zero_draws = [0]
   \<and> \<not> (0 < cont_tower_sample 1 zero_draws ! 0)"
  by (simp add: unit_draws_def zero_draws_def cont_tower_sample_def uniform_def)

section \<open>Score tables and draws\<close>

lemma total_update:
  "map_of sc k = Some v \<Longrightarrow> total (AList.update k w sc) = total sc - v + w"
  by (induction sc) (auto simp: total_def)

lemma incr_score_total: "incr_score k sc = Inr sc' \<Longrightarrow> total sc' = total sc + 1"
  by (auto simp: incr_score_def total_update split: option.splits)



lemma zero_scores_update:
  "list_all (\<lambda>p. snd p = 0) sc \<Longrightarrow> list_all (\<lambda>p. snd p = 0) (AList.update k 0 sc)"
  by (induction sc) auto

lemma zero_scores_fold:
  "list_all (\<lambda>p. snd p = 0) sc \<Longrightarrow>
     list_all (\<lambda>p. snd p = 0) (fold (\<lambda>i sc. AList.update i 0 sc) xs sc)"
  by (induction xs arbitrary: sc) (simp_all add: zero_scores_update)

lemma zero_scores_total: "list_all (\<lambda>p. snd p = (0::int)) sc \<Longrightarrow> total sc = 0"
  by (induction sc) (auto simp: total_def)

lemma total_init_scores: "total (init_scores activities) = 0"
  by (rule zero_scores_total) (simp add: init_scores_def zero_scores_fold)




lemma getitem_nat: "i < length xs \<Longrightarrow> getitem xs (int i) = Inr (xs ! i)"
  by (simp add: getitem_def)

section \<open>The rejection sampler: counts\<close>

lemma reject_step_balance:
  assumes "reject_step activities probabilities max_prob r u st = Inr st'"
    and "total (fst st) = snd st"
  shows "total (fst st') = snd st'"
  using assms
  by (auto simp: reject_step_def bindE_eq_Inr Let_def incr_score_total split: if_splits)

lemma reject_iter_balance:
  "reject_iter activities probabilities max_prob ri ru k = Inr st \<Longrightarrow> total (fst st) = snd st"
proof (induction k arbitrary: st)
  case 0
  then show ?case
    by (auto simp: total_init_scores)
next
  case (Suc k)
  then show ?case
    by (auto simp: bindE_eq_Inr intro: reject_step_balance)
qed

text \<open>
  C9. Whenever the rejection sampler returns, the accept count it returns is the sum of
  the per-activity scores it returns: an accepted draw adds one to one score and one to
  the counter, and a rejected draw changes neither.
\<close>

theorem reject_finite_balance:
  assumes "reject_finite num_iter activities probabilities ri ru = Inr (sc, accept_count)"
  shows "sum_list (map snd sc) = accept_count"
  using assms reject_iter_balance [of activities probabilities _ ri ru "nat num_iter" "(sc, accept_count)"]
  by (auto simp: reject_finite_def bindE_eq_Inr total_def)







text \<open>A run of three iterations: the first draw is rejected, the other two accepted.\<close>

lemma reject_run:
  "reject_finite 3 activities3 [1, 2, 4] count_draws half_draws
     = Inr ([(''trip'', 0), (''novel'', 1), (''cricket'', 1)], 2)"
  by code_simp


theorem reject_finite_balance_witness:
  "reject_finite 3 activities3 [1, 2, 4] count_draws half_draws
     = Inr ([(''trip'', 0), (''novel'', 1), (''cricket'', 1)], 2)
   \<and> sum_list (map snd [(''trip'', 0), (''novel'', 1), (''cricket'', 1::int)]) = 2"
  using reject_finite_balance [OF reject_run] reject_run by simp

section \<open>The Metropolis walkers: one iteration\<close>









subsection \<open>The lattice walker\<close>












section \<open>The Metropolis walkers: whole runs\<close>





text \<open>
  C4, as the code has it. Neither walker tests or scores its initial state: before the
  first iteration every score is zero and no draw has been used. The generic walker
  starts at the first activity of the list the caller passes, with the first weight
  cached. The lattice walker has no seed parameter: it starts at the fixed label \<open>A\<close>
  with the weight the caller's table gives to \<open>A\<close>, whatever the caller passes, so no
  call starts it at \<open>B\<close>.
\<close>

theorem metropolis_initial_state:
  "(activities \<noteq> [] \<and> probabilities \<noteq> [] \<longrightarrow>
      metropolis_iter activities probabilities ri ru 0
        = Inr \<lparr>current_pos = hd activities, current_pos_prob = hd probabilities,
               scores = init_scores activities\<rparr>
      \<and> total (init_scores activities) = 0)
   \<and> (map_of sta_prob ''A'' = Some w \<longrightarrow>
      lattice_iter neighborhood_table sta_prob ri ru 0
        = Inr \<lparr>current_pos = ''A'', current_pos_prob = w, scores = lattice_scores\<rparr>
      \<and> total lattice_scores = 0)"
proof -
  have "total lattice_scores = 0"
    by (simp add: lattice_scores_def total_def)
  moreover have "metropolis_init activities probabilities
        = Inr \<lparr>current_pos = hd activities, current_pos_prob = hd probabilities,
               scores = init_scores activities\<rparr>"
    if "activities \<noteq> []" "probabilities \<noteq> []"
    using that by (cases activities; cases probabilities) (simp_all add: metropolis_init_def getitem_def)
  ultimately show ?thesis
    by (simp add: total_init_scores lattice_init_def dict_get_def)
qed

theorem metropolis_initial_state_witness:
  "activities3 \<noteq> [] \<and> [4, 1, 2 :: real] \<noteq> [] \<and> map_of pebble_sta_prob ''A'' = Some 2
   \<and> metropolis_iter activities3 [4, 1, 2] count_draws half_draws 0
       = Inr \<lparr>current_pos = ''trip'', current_pos_prob = 4,
              scores = [(''trip'', 0), (''novel'', 0), (''cricket'', 0)]\<rparr>
   \<and> lattice_iter pebble_table pebble_sta_prob count_draws half_draws 0
       = Inr \<lparr>current_pos = ''A'', current_pos_prob = 2, scores = lattice_scores\<rparr>"
proof -
  have h: "activities3 \<noteq> [] \<and> [4, 1, 2 :: real] \<noteq> []" "map_of pebble_sta_prob ''A'' = Some 2"
    by (simp_all add: activities3_def pebble_sta_prob_def)
  have "init_scores activities3 = [(''trip'', 0), (''novel'', 0), (''cricket'', 0)]"
    by (simp add: init_scores_def activities3_def)
  with metropolis_initial_state [of activities3 "[4, 1, 2]" count_draws half_draws
      pebble_sta_prob 2 pebble_table] h
  show ?thesis
    by (simp add: activities3_def)
qed

theorem lattice_start_fixed:
  "\<not> (\<exists>neighborhood_table sta_prob ri ru st.
        lattice_iter neighborhood_table sta_prob ri ru 0 = Inr st \<and> current_pos st = ''B'')"
  by (auto simp: lattice_init_def bindE_eq_Inr)

section \<open>The tower sampler\<close>














section \<open>The neighbour table\<close>

lemma upto_from_zero: "[0..int n - 1] = map int [0..<n]"
proof (induction n)
  case 0
  show ?case
    by simp
next
  case (Suc n)
  have "[0..int (Suc n) - 1] = [0..int n - 1] @ [int n]"
    using upto_rec2 [of 0 "int n"] by simp
  with Suc show ?case
    by simp
qed

lemma for_each_map_pure:
  assumes "\<And>x s. x \<in> set xs \<Longrightarrow> f (h x) s = Inr (g x s)"
  shows "for_each f (map h xs) s = Inr (fold g xs s)"
  using assms by (induction xs arbitrary: s) simp_all

lemma cell_in_grid:
  assumes "square_grid n system" "i < n" "j < n"
  shows "cell system (int i) (int j) = Inr (system ! i ! j)"
proof -
  from assms(1,2) have "i < length system" "length (system ! i) = n"
    by (simp_all add: square_grid_def list_all_length)
  with assms(3) show ?thesis
    by (simp add: cell_def getitem_nat)
qed

lemma cell_pred:
  assumes "square_grid n system" "0 < i" "i < n" "j < n"
  shows "cell system (int i - 1) (int j) = Inr (system ! (i - 1) ! j)"
    and "cell system (int j) (int i - 1) = Inr (system ! j ! (i - 1))"
proof -
  have eq: "int i - 1 = int (i - 1)"
    using assms(2) by simp
  have "i - 1 < n"
    using assms(3) by simp
  from cell_in_grid [OF assms(1) this assms(4)] cell_in_grid [OF assms(1) assms(4) this]
  show "cell system (int i - 1) (int j) = Inr (system ! (i - 1) ! j)"
    and "cell system (int j) (int i - 1) = Inr (system ! j ! (i - 1))"
    by (simp_all only: eq)
qed

lemma cell_succ:
  assumes "square_grid n system" "Suc i < n" "j < n"
  shows "cell system (int i + 1) (int j) = Inr (system ! Suc i ! j)"
    and "cell system (int j) (int i + 1) = Inr (system ! j ! Suc i)"
proof -
  have eq: "int i + 1 = int (Suc i)"
    by simp
  from cell_in_grid [OF assms(1,2,3)] cell_in_grid [OF assms(1,3,2)]
  show "cell system (int i + 1) (int j) = Inr (system ! Suc i ! j)"
    and "cell system (int j) (int i + 1) = Inr (system ! j ! Suc i)"
    by (simp_all only: eq)
qed

lemma neighbors_in_grid:
  assumes sq: "square_grid n system" and i: "i < n" and j: "j < n"
  shows "neighbors system (int n) (int i) (int j) = Inr (adjacent_labels system n i j)"
proof -
  note here = cell_in_grid [OF sq i j]
  have up: "(if int i > 0 then cell system (int i - 1) (int j) else cell system (int i) (int j))
            = Inr (if 0 < i then system ! (i - 1) ! j else system ! i ! j)"
    using here cell_pred(1) [OF sq _ i j] by (cases "0 < i") simp_all
  have right: "(if int j < int n - 1 then cell system (int i) (int j + 1)
                else cell system (int i) (int j))
            = Inr (if Suc j < n then system ! i ! Suc j else system ! i ! j)"
  proof (cases "Suc j < n")
    case True
    then have "int j < int n - 1"
      by simp
    with True cell_succ(2) [OF sq True i] show ?thesis
      by (simp only: if_True)
  next
    case False
    then have "\<not> int j < int n - 1"
      by simp
    with False here show ?thesis
      by (simp only: if_False)
  qed
  have down: "(if int i < int n - 1 then cell system (int i + 1) (int j)
               else cell system (int i) (int j))
            = Inr (if Suc i < n then system ! Suc i ! j else system ! i ! j)"
  proof (cases "Suc i < n")
    case True
    then have "int i < int n - 1"
      by simp
    with True cell_succ(1) [OF sq True j] show ?thesis
      by (simp only: if_True)
  next
    case False
    then have "\<not> int i < int n - 1"
      by simp
    with False here show ?thesis
      by (simp only: if_False)
  qed
  have left: "(if int j > 0 then cell system (int i) (int j - 1) else cell system (int i) (int j))
            = Inr (if 0 < j then system ! i ! (j - 1) else system ! i ! j)"
    using here cell_pred(2) [OF sq _ j i] by (cases "0 < j") simp_all
  show ?thesis
    unfolding neighbors_def up right down left bindE_Inr adjacent_labels_def ..
qed

lemma table_cell_in_grid:
  assumes "square_grid n system" "i < n" "j < n"
  shows "table_cell system (int n) (int i) (int j) t
           = Inr (AList.update (system ! i ! j) (adjacent_labels system n i j) t)"
  by (simp add: table_cell_def neighbors_in_grid [OF assms] cell_in_grid [OF assms])

lemma get_neighborhood_table_fold:
  assumes sq: "square_grid n system"
  shows "get_neighborhood_table system
           = Inr (fold (\<lambda>i. fold (\<lambda>j. AList.update (system ! i ! j) (adjacent_labels system n i j))
                    [0..<n]) [0..<n] [])"
proof -
  have n: "length system = n"
    using sq by (simp add: square_grid_def)
  have inner: "for_each (\<lambda>j. table_cell system (int n) (int i) j) (map int [0..<n]) t
                 = Inr (fold (\<lambda>j. AList.update (system ! i ! j) (adjacent_labels system n i j))
                          [0..<n] t)"
    if "i \<in> set [0..<n]" for i t
  proof (rule for_each_map_pure)
    fix j s
    assume "j \<in> set [0..<n]"
    with that have "i < n" "j < n"
      by simp_all
    then show "table_cell system (int n) (int i) (int j) s
           = Inr (AList.update (system ! i ! j) (adjacent_labels system n i j) s)"
      by (rule table_cell_in_grid [OF sq])
  qed
  have "for_each (\<lambda>i. for_each (\<lambda>j. table_cell system (int n) i j) (map int [0..<n]))
          (map int [0..<n]) []
        = Inr (fold (\<lambda>i. fold (\<lambda>j. AList.update (system ! i ! j) (adjacent_labels system n i j))
                    [0..<n]) [0..<n] [])"
  proof (rule for_each_map_pure)
    fix i t
    assume "i \<in> set [0..<n]"
    then show "for_each (\<lambda>j. table_cell system (int n) (int i) j) (map int [0..<n]) t
                 = Inr (fold (\<lambda>j. AList.update (system ! i ! j) (adjacent_labels system n i j))
                          [0..<n] t)"
      by (rule inner)
  qed
  then show ?thesis
    by (simp add: get_neighborhood_table_def n upto_from_zero)
qed

lemma map_of_fold_update_other:
  assumes "\<And>x. x \<in> set xs \<Longrightarrow> key x \<noteq> k"
  shows "map_of (fold (\<lambda>x. AList.update (key x) (val x)) xs t) k = map_of t k"
  using assms
proof (induction xs arbitrary: t)
  case Nil
  show ?case
    by simp
next
  case (Cons y ys)
  have "key y \<noteq> k"
    using Cons.prems [of y] by simp
  moreover have "map_of (fold (\<lambda>x. AList.update (key x) (val x)) ys (AList.update (key y) (val y) t)) k
                   = map_of (AList.update (key y) (val y) t) k"
    using Cons.prems by (intro Cons.IH) simp
  ultimately show ?case
    by (simp add: update_conv')
qed

lemma map_of_fold_update_unique:
  assumes "x \<in> set xs" and "\<And>y. y \<in> set xs \<Longrightarrow> key y = key x \<Longrightarrow> y = x"
  shows "map_of (fold (\<lambda>x. AList.update (key x) (val x)) xs t) (key x) = Some (val x)"
  using assms
proof (induction xs arbitrary: t)
  case Nil
  then show ?case
    by simp
next
  case (Cons y ys)
  show ?case
  proof (cases "x \<in> set ys")
    case True
    with Cons show ?thesis
      by simp
  next
    case False
    with Cons.prems(1) have y: "y = x"
      by simp
    have "key z \<noteq> key x" if "z \<in> set ys" for z
      using that False Cons.prems(2) [of z] by auto
    then have "map_of (fold (\<lambda>x. AList.update (key x) (val x)) ys (AList.update (key x) (val x) t))
                 (key x) = map_of (AList.update (key x) (val x) t) (key x)"
      by (rule map_of_fold_update_other)
    with y show ?thesis
      by (simp add: update_conv')
  qed
qed

lemma fold_nested_product:
  "fold (\<lambda>i. fold (g i) js) is t = fold (\<lambda>(i, j). g i j) (List.product is js) t"
proof (induction "is" arbitrary: t)
  case Nil
  show ?case
    by simp
next
  case (Cons i "is")
  have "fold (\<lambda>(i, j). g i j) (map (Pair i) js) t = fold (g i) js t"
    by (simp add: fold_map comp_def)
  with Cons show ?case
    by simp
qed

lemma concat_nth_inj:
  assumes "distinct (concat xss)" "i < length xss" "i' < length xss"
    and "j < length (xss ! i)" "j' < length (xss ! i')" "xss ! i ! j = xss ! i' ! j'"
  shows "i = i' \<and> j = j'"
  using assms
proof (induction xss arbitrary: i i')
  case Nil
  then show ?case
    by simp
next
  case (Cons xs xss)
  from Cons.prems(1) have dxs: "distinct xs" and dxss: "distinct (concat xss)"
    and disj: "set xs \<inter> set (concat xss) = {}"
    by simp_all
  show ?case
  proof (cases i)
    case 0
    show ?thesis
    proof (cases i')
      case 0
      with \<open>i = 0\<close> Cons.prems dxs show ?thesis
        by (simp add: nth_eq_iff_index_eq)
    next
      case (Suc k')
      with \<open>i = 0\<close> Cons.prems have k': "k' < length xss" "j' < length (xss ! k')"
        and eq: "xs ! j = xss ! k' ! j'" and j: "j < length xs"
        by simp_all
      from j have a: "xs ! j \<in> set xs"
        by (rule nth_mem)
      from k'(2) have "xss ! k' ! j' \<in> set (xss ! k')"
        by (rule nth_mem)
      then have "xs ! j \<in> set (xss ! k')"
        by (simp only: eq)
      with k'(1) have "xs ! j \<in> set (concat xss)"
        by auto
      with a disj show ?thesis
        by auto
    qed
  next
    case (Suc k)
    show ?thesis
    proof (cases i')
      case 0
      with \<open>i = Suc k\<close> Cons.prems have k: "k < length xss" "j < length (xss ! k)"
        and eq: "xss ! k ! j = xs ! j'" and j': "j' < length xs"
        by simp_all
      from j' have a: "xs ! j' \<in> set xs"
        by (rule nth_mem)
      from k(2) have "xss ! k ! j \<in> set (xss ! k)"
        by (rule nth_mem)
      then have "xs ! j' \<in> set (xss ! k)"
        by (simp only: eq)
      with k(1) have "xs ! j' \<in> set (concat xss)"
        by auto
      with a disj show ?thesis
        by auto
    next
      case (Suc k')
      with \<open>i = Suc k\<close> Cons.prems Cons.IH [OF dxss, of k k'] show ?thesis
        by simp
    qed
  qed
qed

text \<open>
  C3. For an \<open>n \<times> n\<close> grid of distinct labels the builder returns a table, and the
  table maps the label of every cell \<open>(i, j)\<close> to the list of four labels in the order
  up, right, down, left: the label of the adjacent cell in that direction where the grid
  has one (for an interior cell all four), and the cell's own label where the direction
  leaves the grid. There is no wraparound.
\<close>

theorem neighborhood_table_correct:
  assumes "square_grid n system" "distinct (concat system)" "i < n" "j < n"
  shows "\<exists>t. get_neighborhood_table system = Inr t
           \<and> map_of t (system ! i ! j)
               = Some [if 0 < i then system ! (i - 1) ! j else system ! i ! j,
                       if Suc j < n then system ! i ! Suc j else system ! i ! j,
                       if Suc i < n then system ! Suc i ! j else system ! i ! j,
                       if 0 < j then system ! i ! (j - 1) else system ! i ! j]"
proof -
  let ?key = "\<lambda>(i, j). system ! i ! j"
  let ?val = "\<lambda>(i, j). adjacent_labels system n i j"
  let ?cells = "List.product [0..<n] [0..<n]"
  let ?t = "fold (\<lambda>x. AList.update (?key x) (?val x)) ?cells []"
  have len: "length system = n" and rows: "\<And>k. k < n \<Longrightarrow> length (system ! k) = n"
    using assms(1) by (simp_all add: square_grid_def list_all_length)
  have "(\<lambda>i. fold (\<lambda>j. AList.update (system ! i ! j) (adjacent_labels system n i j)) [0..<n])
          = (\<lambda>i. fold (\<lambda>j. AList.update (?key (i, j)) (?val (i, j))) [0..<n])"
    by simp
  then have "get_neighborhood_table system
          = Inr (fold (\<lambda>(i, j). AList.update (?key (i, j)) (?val (i, j))) ?cells [])"
    by (simp only: get_neighborhood_table_fold [OF assms(1)] fold_nested_product)
  moreover have "(\<lambda>(i, j). AList.update (?key (i, j)) (?val (i, j)))
          = (\<lambda>x. AList.update (?key x) (?val x))"
    by auto
  ultimately have table: "get_neighborhood_table system = Inr ?t"
    by (simp only:)
  have mem: "(i, j) \<in> set ?cells"
    using assms(3,4) by simp
  have uniq: "y = (i, j)" if "y \<in> set ?cells" "?key y = ?key (i, j)" for y
  proof -
    obtain i' j' where y: "y = (i', j')"
      by (cases y)
    with that(1) have "i' < n" "j' < n"
      by simp_all
    with that(2) y assms(3,4) len rows
      concat_nth_inj [OF assms(2), of i' i j' j]
    show ?thesis
      by simp
  qed
  from map_of_fold_update_unique [of "(i, j)" ?cells ?key ?val "[]", OF mem uniq]
  have "map_of ?t (system ! i ! j) = Some (adjacent_labels system n i j)"
    by simp
  with table show ?thesis
    unfolding adjacent_labels_def by blast
qed

text \<open>On the \<open>4 \<times> 4\<close> grid the builder returns the table the notebook prints; \<open>F\<close> is
  an interior cell, \<open>D\<close> the top right corner.\<close>

lemma grid4_table: "get_neighborhood_table grid4 = Inr pebble_table"
  by code_simp

theorem neighborhood_table_correct_witness:
  "square_grid 4 grid4 \<and> distinct (concat grid4) \<and> create_system 4 = Inr grid4
   \<and> get_neighborhood_table grid4 = Inr pebble_table
   \<and> grid4 ! 1 ! 1 = ''F'' \<and> map_of pebble_table ''F'' = Some [''B'', ''G'', ''J'', ''E'']
   \<and> grid4 ! 0 ! 3 = ''D'' \<and> map_of pebble_table ''D'' = Some [''D'', ''D'', ''H'', ''C'']"
proof -
  have h: "square_grid 4 grid4" "distinct (concat grid4)"
    by (simp_all add: square_grid_def grid4_def)
  have g: "create_system 4 = Inr grid4"
    by (simp add: create_system_def reshape_def ascii_uppercase_def list_of_str_def
        upt_conv_Cons grid4_def)
  have "(1::nat) < 4" "(0::nat) < 4" "(3::nat) < 4"
    by simp_all
  from neighborhood_table_correct [OF h this(1) this(1)]
    neighborhood_table_correct [OF h this(2) this(3)] h g grid4_table
  show ?thesis
    by (simp add: grid4_def pebble_table_def)
qed

end
